theory Spec2Isabelle
  imports Main "HOL-Library.Sublist"
begin

section \<open>Python strings\<close>

text \<open>
  A Python \<open>str\<close> is a sequence of code points. The model uses Isabelle strings, whose
  characters are the code points U+0000 to U+00FF; on this range \<open>str.lower\<close>,
  \<open>str.strip\<close> and the regular-expression class \<open>\d\<close> are closed and are modelled
  exactly. Text outside this range never reaches one of the literal strategies of the
  resolver: it is passed on to the two library parsers, which are parameters of the model.
\<close>

definition py_lower_char :: "char \<Rightarrow> char" where
  "py_lower_char c =
     (let n = (of_char c :: nat)
      in if (65 \<le> n \<and> n \<le> 90) \<or> (192 \<le> n \<and> n \<le> 222 \<and> n \<noteq> 215)
         then char_of (n + 32) else c)"

definition py_lower :: "string \<Rightarrow> string" where
  "py_lower s = map py_lower_char s"

definition py_isspace :: "char \<Rightarrow> bool" where
  "py_isspace c =
     (let n = (of_char c :: nat)
      in (9 \<le> n \<and> n \<le> 13) \<or> (28 \<le> n \<and> n \<le> 32) \<or> n = 133 \<or> n = 160)"

definition py_lstrip :: "string \<Rightarrow> string" where
  "py_lstrip s = dropWhile py_isspace s"

definition py_rstrip :: "string \<Rightarrow> string" where
  "py_rstrip s = rev (dropWhile py_isspace (rev s))"

definition py_strip :: "string \<Rightarrow> string" where
  "py_strip s = py_rstrip (py_lstrip s)"

text \<open>The operator \<open>p in s\<close> on strings: \<open>p\<close> occurs in \<open>s\<close> as a contiguous run.\<close>

fun py_in :: "string \<Rightarrow> string \<Rightarrow> bool" where
  "py_in p [] = (p = [])"
| "py_in p (c # s) = (prefix p (c # s) \<or> py_in p s)"

definition is_digit :: "char \<Rightarrow> bool" where
  "is_digit c = (let n = (of_char c :: nat) in 48 \<le> n \<and> n \<le> 57)"

definition digit_val :: "char \<Rightarrow> nat" where
  "digit_val c = of_char c - 48"

definition digit_char :: "nat \<Rightarrow> char" where
  "digit_char k = char_of (48 + k)"

text \<open>\<open>int(s)\<close> on a string of decimal digits, read from the left.\<close>

definition py_int_digits :: "string \<Rightarrow> nat" where
  "py_int_digits ds = foldl (\<lambda>acc c. 10 * acc + digit_val c) 0 ds"

text \<open>\<open>str(n)\<close> for a natural number.\<close>

fun str_nat :: "nat \<Rightarrow> string" where
  "str_nat n = (if n < 10 then [digit_char n] else str_nat (n div 10) @ [digit_char (n mod 10)])"

declare str_nat.simps [simp del]

section \<open>Exceptions\<close>

text \<open>The exception classes the modelled code can raise. A raising call is \<open>Inl e\<close>.\<close>

datatype error = OverflowError | ValueError | TypeError | AttributeError

definition bind_err :: "error + 'a \<Rightarrow> ('a \<Rightarrow> error + 'b) \<Rightarrow> error + 'b" where
  "bind_err r f = (case r of Inl e \<Rightarrow> Inl e | Inr x \<Rightarrow> f x)"

section \<open>Calendar dates\<close>

text \<open>
  \<open>datetime.datetime\<close>: a proleptic Gregorian date with a time of day. The date
  arithmetic below follows the standard library (\<open>_is_leap\<close>, \<open>_days_in_month\<close>,
  \<open>_ymd2ord\<close>, \<open>_ord2ymd\<close>, \<open>datetime.__add__\<close>): a date is turned into its ordinal
  (0001-01-01 is day 1), the days are added, and the sum is turned back into a date when it
  lies between 1 and 3652059 (9999-12-31); otherwise \<open>OverflowError\<close> is raised.
\<close>

record datetime =
  year :: nat
  month :: nat
  day :: nat
  hour :: nat
  minute :: nat
  second :: nat
  microsecond :: nat

definition is_leap :: "nat \<Rightarrow> bool" where
  "is_leap y = (y mod 4 = 0 \<and> (y mod 100 \<noteq> 0 \<or> y mod 400 = 0))"

definition days_in_month :: "nat \<Rightarrow> nat \<Rightarrow> nat" where
  "days_in_month y m =
     (if m = 2 then (if is_leap y then 29 else 28)
      else if m = 4 \<or> m = 6 \<or> m = 9 \<or> m = 11 then 30 else 31)"

definition days_before_year :: "nat \<Rightarrow> nat" where
  "days_before_year y = (let z = y - 1 in z * 365 + z div 4 - z div 100 + z div 400)"

definition days_before_month_tab :: "nat list" where
  "days_before_month_tab = [0, 0, 31, 59, 90, 120, 151, 181, 212, 243, 273, 304, 334]"

definition days_before_month :: "nat \<Rightarrow> nat \<Rightarrow> nat" where
  "days_before_month y m =
     days_before_month_tab ! m + (if m > 2 \<and> is_leap y then 1 else 0)"

definition ymd2ord :: "nat \<Rightarrow> nat \<Rightarrow> nat \<Rightarrow> nat" where
  "ymd2ord y m d = days_before_year y + days_before_month y m + d"

definition ord2ymd :: "nat \<Rightarrow> nat \<times> nat \<times> nat" where
  "ord2ymd n0 =
     (let n = n0 - 1;
          n400 = n div 146097; n = n mod 146097;
          n100 = n div 36524; n = n mod 36524;
          n4 = n div 1461; n = n mod 1461;
          n1 = n div 365; n = n mod 365;
          y = n400 * 400 + 1 + n100 * 100 + n4 * 4 + n1
      in if n1 = 4 \<or> n100 = 4 then (y - 1, 12, 31)
         else
           let leapyear = (n1 = 3 \<and> (n4 \<noteq> 24 \<or> n100 = 3));
               m = (n + 50) div 32;
               preceding = days_before_month_tab ! m + (if m > 2 \<and> leapyear then 1 else 0)
           in if preceding > n
              then let m' = m - 1;
                       dim = (if m' = 2 then (if leapyear then 29 else 28)
                              else if m' = 4 \<or> m' = 6 \<or> m' = 9 \<or> m' = 11 then 30 else 31)
                   in (y, m', n - (preceding - dim) + 1)
              else (y, m, n - preceding + 1))"

definition max_ordinal :: nat where
  "max_ordinal = 3652059"

definition valid_datetime :: "datetime \<Rightarrow> bool" where
  "valid_datetime t =
     (1 \<le> year t \<and> year t \<le> 9999 \<and> 1 \<le> month t \<and> month t \<le> 12 \<and>
      1 \<le> day t \<and> day t \<le> days_in_month (year t) (month t) \<and>
      hour t < 24 \<and> minute t < 60 \<and> second t < 60 \<and> microsecond t < 1000000)"

definition toordinal :: "datetime \<Rightarrow> nat" where
  "toordinal t = ymd2ord (year t) (month t) (day t)"

text \<open>
  \<open>t + timedelta(days=k)\<close> for \<open>k \<ge> 0\<close>. The constructor \<open>timedelta\<close> itself raises
  \<open>OverflowError\<close> above 999999999 days; the addition raises it when the date leaves the
  supported range. The time of day is kept.
\<close>

definition fromordinal_on :: "datetime \<Rightarrow> nat \<Rightarrow> datetime" where
  "fromordinal_on t n = (case ord2ymd n of (y, m, d) \<Rightarrow> t\<lparr>year := y, month := m, day := d\<rparr>)"

definition plus_days :: "datetime \<Rightarrow> nat \<Rightarrow> datetime" where
  "plus_days t k = fromordinal_on t (toordinal t + k)"

definition add_days :: "datetime \<Rightarrow> nat \<Rightarrow> error + datetime" where
  "add_days t k =
     (if k > 999999999 then Inl OverflowError
      else if 0 < toordinal t + k \<and> toordinal t + k \<le> max_ordinal
           then Inr (plus_days t k)
           else Inl OverflowError)"

text \<open>
  \<open>t + relativedelta(months=1)\<close> (dateutil): the month is advanced, the year with it
  after December, the day is cut down to the length of the new month, and
  \<open>datetime.replace\<close> raises \<open>ValueError\<close> for a year after 9999.
\<close>

definition month_later :: "datetime \<Rightarrow> datetime" where
  "month_later t =
     (let m1 = month t + 1;
          y = (if m1 > 12 then year t + 1 else year t);
          m = (if m1 > 12 then m1 - 12 else m1);
          d = min (days_in_month y m) (day t)
      in t\<lparr>year := y, month := m, day := d\<rparr>)"

definition add_one_month :: "datetime \<Rightarrow> error + datetime" where
  "add_one_month t =
     (if year (month_later t) > 9999 then Inl ValueError else Inr (month_later t))"

text \<open>\<open>t.strftime('%Y-%m-%d')\<close>, with the year written on four digits.\<close>

definition zfill :: "nat \<Rightarrow> string \<Rightarrow> string" where
  "zfill w s = replicate (w - length s) (CHR ''0'') @ s"

definition strftime :: "datetime \<Rightarrow> string" where
  "strftime t =
     zfill 4 (str_nat (year t)) @ ''-'' @ zfill 2 (str_nat (month t)) @ ''-'' @
     zfill 2 (str_nat (day t))"

text \<open>
  \<open>datetime(y, m, d, H, M, S)\<close>: the constructor checks every field and raises
  \<open>ValueError\<close> for one out of range.
\<close>

definition mk_datetime :: "int \<Rightarrow> int \<Rightarrow> int \<Rightarrow> int \<Rightarrow> int \<Rightarrow> int \<Rightarrow> error + datetime" where
  "mk_datetime y m d H M S =
     (if 1 \<le> y \<and> y \<le> 9999 \<and> 1 \<le> m \<and> m \<le> 12 \<and>
         1 \<le> d \<and> d \<le> int (days_in_month (nat y) (nat m)) \<and>
         0 \<le> H \<and> H < 24 \<and> 0 \<le> M \<and> M < 60 \<and> 0 \<le> S \<and> S < 60
      then Inr \<lparr>year = nat y, month = nat m, day = nat d,
                hour = nat H, minute = nat M, second = nat S, microsecond = 0\<rparr>
      else Inl ValueError)"

text \<open>
  \<open>datetime.strptime(s, "%Y-%m-%d")\<close>: four digits, a hyphen, a month (\<open>1[0-2]\<close>,
  \<open>0[1-9]\<close> or \<open>[1-9]\<close>), a hyphen and a day (\<open>3[01]\<close>, \<open>[12]\d\<close>, \<open>0[1-9]\<close>, \<open>[1-9]\<close>
  or a space and \<open>[1-9]\<close>), with nothing left over; then the constructor's checks. Every
  failure is a \<open>ValueError\<close>.
\<close>

definition month_field :: "string \<Rightarrow> nat option" where
  "month_field s =
     (case s of
        [a] \<Rightarrow> if is_digit a \<and> a \<noteq> CHR ''0'' then Some (digit_val a) else None
      | [a, b] \<Rightarrow>
          if a = CHR ''1'' \<and> (b = CHR ''0'' \<or> b = CHR ''1'' \<or> b = CHR ''2'')
            then Some (10 + digit_val b)
          else if a = CHR ''0'' \<and> is_digit b \<and> b \<noteq> CHR ''0'' then Some (digit_val b)
          else None
      | _ \<Rightarrow> None)"

definition day_field :: "string \<Rightarrow> nat option" where
  "day_field s =
     (case s of
        [a] \<Rightarrow> if is_digit a \<and> a \<noteq> CHR ''0'' then Some (digit_val a) else None
      | [a, b] \<Rightarrow>
          if a = CHR ''3'' \<and> (b = CHR ''0'' \<or> b = CHR ''1'') then Some (30 + digit_val b)
          else if (a = CHR ''1'' \<or> a = CHR ''2'') \<and> is_digit b
            then Some (10 * digit_val a + digit_val b)
          else if (a = CHR ''0'' \<or> a = CHR '' '') \<and> is_digit b \<and> b \<noteq> CHR ''0''
            then Some (digit_val b)
          else None
      | _ \<Rightarrow> None)"

definition strptime :: "string \<Rightarrow> error + datetime" where
  "strptime s =
     (let ys = take 4 s; r = drop 4 s
      in if length ys = 4 \<and> list_all is_digit ys \<and> take 1 r = ''-''
         then let r' = drop 1 r;
                  ms = takeWhile (\<lambda>c. c \<noteq> CHR ''-'') r';
                  r'' = dropWhile (\<lambda>c. c \<noteq> CHR ''-'') r'
              in (case (month_field ms, r'') of
                    (Some m, c # ds) \<Rightarrow>
                      (case day_field ds of
                         Some d \<Rightarrow> mk_datetime (int (py_int_digits ys)) (int m) (int d) 0 0 0
                       | None \<Rightarrow> Inl ValueError)
                  | _ \<Rightarrow> Inl ValueError)
         else Inl ValueError)"

section \<open>Values of the decoded extraction\<close>

text \<open>
  \<open>json.loads\<close> gives the handler a dictionary from keys to values. The model has the
  values the extractor is asked to produce: \<open>null\<close>, booleans, integers and strings.
\<close>

datatype json = JNull | JBool bool | JInt int | JStr string

text \<open>Truth value of a Python object (\<open>if x\<close>, \<open>not x\<close>, \<open>x and y\<close>, \<open>x or y\<close>).\<close>

fun truthy :: "json \<Rightarrow> bool" where
  "truthy JNull = False"
| "truthy (JBool b) = b"
| "truthy (JInt n) = (n \<noteq> 0)"
| "truthy (JStr s) = (s \<noteq> [])"

text \<open>Truth value of an optional string (\<open>None\<close> and the empty string are false).\<close>

fun truthy_str :: "string option \<Rightarrow> bool" where
  "truthy_str None = False"
| "truthy_str (Some s) = (s \<noteq> [])"

fun py_str :: "json \<Rightarrow> string" where
  "py_str JNull = ''None''"
| "py_str (JBool b) = (if b then ''True'' else ''False'')"
| "py_str (JInt n) = (if n < 0 then ''-'' @ str_nat (nat (- n)) else str_nat (nat n))"
| "py_str (JStr s) = s"

text \<open>
  \<open>int(s)\<close> on a string: surrounding whitespace is dropped, one sign is allowed, and the
  digits may be grouped by single underscores. CPython refuses more than 4300 digits
  (its default limit for the conversion). Anything else is a \<open>ValueError\<close>.
\<close>

definition int_max_str_digits :: nat where
  "int_max_str_digits = 4300"

definition py_int_of_digits :: "string \<Rightarrow> error + nat" where
  "py_int_of_digits ds =
     (if length ds > int_max_str_digits then Inl ValueError else Inr (py_int_digits ds))"

definition valid_int_body :: "string \<Rightarrow> bool" where
  "valid_int_body b =
     (b \<noteq> [] \<and> is_digit (hd b) \<and> is_digit (last b) \<and>
      list_all (\<lambda>c. is_digit c \<or> c = CHR ''_'') b \<and> \<not> py_in ''__'' b)"

definition py_int_of_str :: "string \<Rightarrow> error + int" where
  "py_int_of_str s =
     (let t = py_strip s;
          neg = (take 1 t = ''-'');
          b = (if take 1 t = ''-'' \<or> take 1 t = ''+'' then drop 1 t else t)
      in if valid_int_body b
         then bind_err (py_int_of_digits (filter is_digit b))
                (\<lambda>n. Inr (if neg then - int n else int n))
         else Inl ValueError)"

fun py_int :: "json \<Rightarrow> error + int" where
  "py_int JNull = Inl TypeError"
| "py_int (JBool b) = Inr (if b then 1 else 0)"
| "py_int (JInt n) = Inr n"
| "py_int (JStr s) = py_int_of_str s"

text \<open>\<open>x.lower()\<close> exists on strings only.\<close>

fun py_lower_method :: "json \<Rightarrow> error + string" where
  "py_lower_method (JStr s) = Inr (py_lower s)"
| "py_lower_method _ = Inl AttributeError"

type_synonym dict = "string \<Rightarrow> json option"

definition dict_get :: "dict \<Rightarrow> string \<Rightarrow> json" where
  "dict_get d k = (case d k of None \<Rightarrow> JNull | Some v \<Rightarrow> v)"

definition dict_get_default :: "dict \<Rightarrow> string \<Rightarrow> json \<Rightarrow> json" where
  "dict_get_default d k dflt = (case d k of None \<Rightarrow> dflt | Some v \<Rightarrow> v)"

section \<open>The date resolver\<close>

text \<open>
  \<open>re.search(r'after (\d+) days?', s)\<close>. \<open>match_after_days\<close> is the match anchored at
  the head of the string and yields group 1: the longest run of digits after
  \<open>after \<close>, which must be followed by \<open> day\<close> (the optional \<open>s\<close> ends the pattern,
  so it never decides the match). \<open>re_search_after_days\<close> tries every start position
  from the left and keeps the first match.
\<close>

definition match_after_days :: "string \<Rightarrow> string option" where
  "match_after_days s =
     (if prefix ''after '' s
      then let r = drop 6 s; ds = takeWhile is_digit r; r' = dropWhile is_digit r
           in if ds \<noteq> [] \<and> prefix '' day'' r' then Some ds else None
      else None)"

fun re_search_after_days :: "string \<Rightarrow> string option" where
  "re_search_after_days [] = None"
| "re_search_after_days (c # s) =
     (case match_after_days (c # s) of
        Some ds \<Rightarrow> Some ds
      | None \<Rightarrow> re_search_after_days s)"

text \<open>
  The two library parsers are parameters. \<open>cal_parser\<close> is
  \<open>parsedatetime.Calendar().parse(text, sourceTime=today.timetuple())\<close>: the first six
  fields of the time structure and the parse status (or an exception).
  \<open>fuzzy_parser\<close> is \<open>dateutil.parser.parse(text, fuzzy=True, default=today)\<close>.
\<close>

type_synonym timetuple = "int \<times> int \<times> int \<times> int \<times> int \<times> int"

type_synonym cal_parser = "string \<Rightarrow> timetuple \<Rightarrow> error + (timetuple \<times> int)"

type_synonym fuzzy_parser = "string \<Rightarrow> datetime \<Rightarrow> error + datetime"

definition timetuple :: "datetime \<Rightarrow> timetuple" where
  "timetuple t =
     (int (year t), int (month t), int (day t), int (hour t), int (minute t), int (second t))"

text \<open>Lines 96 to 106 of \<open>parse_date_string\<close>: the two parser fallbacks.\<close>

definition parser_fallbacks ::
  "cal_parser \<Rightarrow> fuzzy_parser \<Rightarrow> string \<Rightarrow> datetime \<Rightarrow> error + string option" where
  "parser_fallbacks cal fuzzy natural_date today =
     bind_err (cal natural_date (timetuple today))
       (\<lambda>(time_struct, parse_status).
          if parse_status \<noteq> 0
          then (case time_struct of (y, m, d, H, M, S) \<Rightarrow>
                  bind_err (mk_datetime y m d H M S) (\<lambda>t. Inr (Some (strftime t))))
          else (case fuzzy natural_date today of
                  Inr t \<Rightarrow> Inr (Some (strftime t))
                | Inl e \<Rightarrow> Inr None))"

text \<open>
  \<open>base_date or datetime.now()\<close>: a \<open>datetime\<close> object is always true, so the
  clock reading \<open>now\<close> is taken exactly when no base date is given.
\<close>

definition anchor :: "datetime option \<Rightarrow> datetime \<Rightarrow> datetime" where
  "anchor base_date now = (case base_date of Some b \<Rightarrow> b | None \<Rightarrow> now)"

text \<open>
  \<open>parse_date_string(natural_date, base_date)\<close>. The clock reading \<open>now\<close> stands for
  \<open>datetime.now()\<close>.
\<close>

definition parse_date_string ::
  "cal_parser \<Rightarrow> fuzzy_parser \<Rightarrow> datetime \<Rightarrow> json \<Rightarrow> datetime option \<Rightarrow> error + string option"
where
  "parse_date_string cal fuzzy now natural_date base_date =
     (if \<not> truthy natural_date then Inr None
      else case natural_date of
        JStr s \<Rightarrow>
          (let natural_date_lower = py_strip (py_lower s);
               today = anchor base_date now
           in if py_in ''day after tomorrow'' natural_date_lower
                then bind_err (add_days today 2) (\<lambda>t. Inr (Some (strftime t)))
              else if py_in ''tomorrow'' natural_date_lower
                then bind_err (add_days today 1) (\<lambda>t. Inr (Some (strftime t)))
              else if natural_date_lower = ''next month''
                then bind_err (add_one_month today) (\<lambda>t. Inr (Some (strftime t)))
              else (case re_search_after_days natural_date_lower of
                      Some ds \<Rightarrow>
                        bind_err (py_int_of_digits ds) (\<lambda>days.
                        bind_err (add_days today days) (\<lambda>t. Inr (Some (strftime t))))
                    | None \<Rightarrow> parser_fallbacks cal fuzzy s today))
      | _ \<Rightarrow> Inl AttributeError)"

section \<open>The completeness check and the handler\<close>

definition is_missing :: "json \<Rightarrow> bool" where
  "is_missing v =
     (case v of
        JNull \<Rightarrow> True
      | _ \<Rightarrow> py_lower (py_strip (py_str v)) \<in>
              set ['''', ''none'', ''not provided'', ''departure city (not provided)'',
                   ''arrival city (not provided)''])"

text \<open>
  The three follow-up questions. Each starts with a pictogram, kept here as the bytes of
  its UTF-8 encoding.
\<close>

definition prompt_from :: string where
  "prompt_from =
     [CHR 0xE2, CHR 0x9C, CHR 0x88, CHR 0xEF, CHR 0xB8, CHR 0x8F] @
     '' Where are you flying *from*?''"

definition prompt_to :: string where
  "prompt_to = [CHR 0xF0, CHR 0x9F, CHR 0x9B, CHR 0xAC] @ '' Where are you flying *to*?''"

definition prompt_depdate :: string where
  "prompt_depdate =
     [CHR 0xF0, CHR 0x9F, CHR 0x93, CHR 0x85] @ '' When do you want to *depart*?''"

fun py_join :: "string \<Rightarrow> string list \<Rightarrow> string" where
  "py_join sep [] = []"
| "py_join sep [x] = x"
| "py_join sep (x # y # ys) = x @ sep @ py_join sep (y # ys)"

record segment =
  seg_depfrom :: json
  seg_arrto :: json
  seg_depdate :: "string option"

record payload =
  adults :: int
  children :: int
  infants :: int
  cabin :: string
  stops :: bool
  airline_include :: json
  ages :: "json list"
  segments :: "segment list"

record incomplete =
  message :: string
  missing_fields :: "string list"
  follow_up :: "string list"
  parsed_from :: json
  parsed_to :: json
  parsed_depdate :: json

text \<open>
  The three answers of the handler after the extraction has been decoded: the
  \<open>complete\<close> body, the \<open>incomplete\<close> body, and status 500 for an exception caught by
  the handler's \<open>except Exception\<close>.
\<close>

datatype response = Complete payload | Incomplete incomplete | ServerError error

text \<open>
  Lines 149 to 155 of \<open>parse_query\<close>: the departure date is resolved against the clock,
  the return date against the resolved departure date, read back with \<open>strptime\<close>.
\<close>

definition resolve_dates ::
  "cal_parser \<Rightarrow> fuzzy_parser \<Rightarrow> datetime \<Rightarrow> dict \<Rightarrow> error + (string option \<times> string option)"
where
  "resolve_dates cal fuzzy now parsed =
     (let depdate_raw = dict_get parsed ''depdate'';
          retdate_raw = dict_get parsed ''retdate''
      in bind_err (if truthy depdate_raw
                   then parse_date_string cal fuzzy now depdate_raw None
                   else Inr None) (\<lambda>depdate.
         bind_err (if truthy retdate_raw \<and> truthy_str depdate
                   then bind_err (strptime (the depdate)) (\<lambda>base.
                          parse_date_string cal fuzzy now retdate_raw (Some base))
                   else Inr None) (\<lambda>retdate.
         Inr (depdate, retdate))))"

text \<open>Lines 163 to 174: the two lists are filled together, in the order of the checks.\<close>

definition check_missing ::
  "json \<Rightarrow> json \<Rightarrow> json \<Rightarrow> string option \<Rightarrow> string list \<times> string list" where
  "check_missing depfrom arrto depdate_raw depdate =
     ((if is_missing depfrom then [''from''] else []) @
      (if is_missing arrto then [''to''] else []) @
      (if \<not> truthy depdate_raw \<or> \<not> truthy_str depdate then [''depdate''] else []),
      (if is_missing depfrom then [prompt_from] else []) @
      (if is_missing arrto then [prompt_to] else []) @
      (if \<not> truthy depdate_raw \<or> \<not> truthy_str depdate then [prompt_depdate] else []))"

text \<open>
  \<open>parse_query\<close> from line 149 on, for the dictionary \<open>parsed\<close> decoded from the
  extractor's answer. The transport, the call of the extractor and the decoding come
  before and are not part of the model.
\<close>

definition parse_query :: "cal_parser \<Rightarrow> fuzzy_parser \<Rightarrow> datetime \<Rightarrow> dict \<Rightarrow> response" where
  "parse_query cal fuzzy now parsed =
     (let depdate_raw = dict_get parsed ''depdate'';
          depfrom = dict_get parsed ''from'';
          arrto = dict_get parsed ''to''
      in case resolve_dates cal fuzzy now parsed of
           Inl e \<Rightarrow> ServerError e
         | Inr (depdate, retdate) \<Rightarrow>
      (case py_int (dict_get_default parsed ''adults'' (JInt 1)) of
           Inl e \<Rightarrow> ServerError e
         | Inr adults_v \<Rightarrow>
      (case py_int (dict_get_default parsed ''children'' (JInt 0)) of
           Inl e \<Rightarrow> ServerError e
         | Inr children_v \<Rightarrow>
      (case py_int (dict_get_default parsed ''infants'' (JInt 0)) of
           Inl e \<Rightarrow> ServerError e
         | Inr infants_v \<Rightarrow>
      (case py_lower_method (dict_get_default parsed ''cabin'' (JStr ''economy'')) of
           Inl e \<Rightarrow> ServerError e
         | Inr cabin_v \<Rightarrow>
      (let airline = dict_get_default parsed ''airline_include'' (JStr '''');
           (missing, questions) = check_missing depfrom arrto depdate_raw depdate
       in if missing \<noteq> []
          then Incomplete
                 \<lparr>message = ''Missing fields: '' @ py_join '', '' missing,
                  missing_fields = missing,
                  follow_up = questions,
                  parsed_from = depfrom,
                  parsed_to = arrto,
                  parsed_depdate = (if truthy depdate_raw then depdate_raw else JNull)\<rparr>
          else Complete
                 \<lparr>adults = adults_v, children = children_v, infants = infants_v,
                  cabin = cabin_v, stops = False, airline_include = airline, ages = [],
                  segments =
                    [\<lparr>seg_depfrom = depfrom, seg_arrto = arrto, seg_depdate = depdate\<rparr>] @
                    (if truthy_str retdate
                     then [\<lparr>seg_depfrom = arrto, seg_arrto = depfrom, seg_depdate = retdate\<rparr>]
                     else [])\<rparr>))))))"

section \<open>Concrete inputs\<close>

text \<open>
  \<open>datetime(y, m, d)\<close> at midnight, and two parsers that recognise nothing:
  \<open>parsedatetime\<close> answering with parse status 0 and \<open>dateutil\<close> raising its
  \<open>ParserError\<close> (a \<open>ValueError\<close>). They are used to run the model on examples.
\<close>

definition at_midnight :: "nat \<Rightarrow> nat \<Rightarrow> nat \<Rightarrow> datetime" where
  "at_midnight y m d =
     \<lparr>year = y, month = m, day = d, hour = 0, minute = 0, second = 0, microsecond = 0\<rparr>"

definition cal_unparsed :: cal_parser where
  "cal_unparsed s tt = Inr (tt, 0)"

definition fuzzy_unparsed :: fuzzy_parser where
  "fuzzy_unparsed s t = Inl ValueError"

fun incomplete_of :: "response \<Rightarrow> incomplete option" where
  "incomplete_of (Incomplete r) = Some r"
| "incomplete_of _ = None"

fun payload_of :: "response \<Rightarrow> payload option" where
  "payload_of (Complete p) = Some p"
| "payload_of _ = None"

section \<open>Notions used in the statements\<close>

text \<open>
  The handler answered with status 500; the two lists of the completeness check for a
  decoded extraction whose departure date resolved to \<open>dd\<close>; and the question that
  belongs to a field name.
\<close>

fun is_error :: "response \<Rightarrow> bool" where
  "is_error (ServerError e) = True"
| "is_error _ = False"

definition missing_of :: "dict \<Rightarrow> string option \<Rightarrow> string list \<times> string list" where
  "missing_of parsed dd =
     check_missing (dict_get parsed ''from'') (dict_get parsed ''to'')
       (dict_get parsed ''depdate'') dd"


section \<open>Evaluation rules\<close>

lemma zeros_numeral:
  "replicate (numeral k) (CHR ''0'') = CHR ''0'' # replicate (pred_numeral k) (CHR ''0'')"
  by (simp add: numeral_eq_Suc)

lemmas str_eval =
  py_lower_def py_lower_char_def py_isspace_def py_lstrip_def py_rstrip_def py_strip_def
  is_digit_def digit_val_def digit_char_def py_int_digits_def str_nat.simps
  char_of_def bit_Suc_0_iff zfill_def zeros_numeral Let_def

lemmas date_eval =
  is_leap_def days_in_month_def days_before_year_def days_before_month_tab_def
  days_before_month_def ymd2ord_def ord2ymd_def max_ordinal_def toordinal_def
  fromordinal_on_def plus_days_def add_days_def month_later_def add_one_month_def
  strftime_def mk_datetime_def month_field_def
  day_field_def strptime_def bind_err_def

lemmas resolver_eval =
  match_after_days_def parser_fallbacks_def parse_date_string_def timetuple_def anchor_def
  int_max_str_digits_def py_int_of_digits_def

lemmas handler_eval =
  dict_get_def dict_get_default_def is_missing_def check_missing_def resolve_dates_def
  parse_query_def prompt_from_def prompt_to_def prompt_depdate_def
  valid_int_body_def py_int_of_str_def

lemmas example_eval = at_midnight_def cal_unparsed_def fuzzy_unparsed_def

section \<open>Basic facts\<close>

lemma py_isspace_lower: "py_isspace (py_lower_char c) = py_isspace c"
  by (auto simp: py_isspace_def py_lower_char_def Let_def)

lemma py_lstrip_lower: "py_lstrip (py_lower s) = py_lower (py_lstrip s)"
  by (simp add: py_lstrip_def py_lower_def dropWhile_map comp_def py_isspace_lower)

lemma py_rstrip_lower: "py_rstrip (py_lower s) = py_lower (py_rstrip s)"
  by (simp add: py_rstrip_def py_lower_def dropWhile_map comp_def py_isspace_lower rev_map)

lemma py_strip_lower: "py_strip (py_lower s) = py_lower (py_strip s)"
  by (simp add: py_strip_def py_lstrip_lower py_rstrip_lower)



lemma parse_query_steps:
  assumes "\<not> is_error (parse_query cal fuzzy now parsed)"
  obtains dd rd a c i cb where
    "resolve_dates cal fuzzy now parsed = Inr (dd, rd)"
    "py_int (dict_get_default parsed ''adults'' (JInt 1)) = Inr a"
    "py_int (dict_get_default parsed ''children'' (JInt 0)) = Inr c"
    "py_int (dict_get_default parsed ''infants'' (JInt 0)) = Inr i"
    "py_lower_method (dict_get_default parsed ''cabin'' (JStr ''economy'')) = Inr cb"
  using assms by (auto simp: parse_query_def Let_def split: sum.splits prod.splits)

lemma parse_query_result:
  assumes "resolve_dates cal fuzzy now parsed = Inr (dd, rd)"
    "py_int (dict_get_default parsed ''adults'' (JInt 1)) = Inr a"
    "py_int (dict_get_default parsed ''children'' (JInt 0)) = Inr c"
    "py_int (dict_get_default parsed ''infants'' (JInt 0)) = Inr i"
    "py_lower_method (dict_get_default parsed ''cabin'' (JStr ''economy'')) = Inr cb"
  shows "parse_query cal fuzzy now parsed =
     (if fst (missing_of parsed dd) \<noteq> []
      then Incomplete
        \<lparr>message = ''Missing fields: '' @ py_join '', '' (fst (missing_of parsed dd)),
         missing_fields = fst (missing_of parsed dd),
         follow_up = snd (missing_of parsed dd),
         parsed_from = dict_get parsed ''from'', parsed_to = dict_get parsed ''to'',
         parsed_depdate = (if truthy (dict_get parsed ''depdate'')
                           then dict_get parsed ''depdate'' else JNull)\<rparr>
      else Complete
        \<lparr>adults = a, children = c, infants = i, cabin = cb, stops = False,
         airline_include = dict_get_default parsed ''airline_include'' (JStr ''''),
         ages = [],
         segments =
           [\<lparr>seg_depfrom = dict_get parsed ''from'', seg_arrto = dict_get parsed ''to'',
             seg_depdate = dd\<rparr>] @
           (if truthy_str rd
            then [\<lparr>seg_depfrom = dict_get parsed ''to'',
                   seg_arrto = dict_get parsed ''from'', seg_depdate = rd\<rparr>]
            else [])\<rparr>)"
  using assms by (simp add: parse_query_def missing_of_def Let_def split: prod.splits)



lemma strftime_nonempty: "strftime t \<noteq> []"
  by (simp add: strftime_def)

lemma parse_date_string_nonempty:
  "parse_date_string cal fuzzy now x base = Inr (Some r) \<Longrightarrow> r \<noteq> []"
  by (auto simp: parse_date_string_def parser_fallbacks_def bind_err_def Let_def
        strftime_nonempty
      split: if_splits json.splits option.splits sum.splits prod.splits)

lemma resolve_dates_nonempty:
  assumes "resolve_dates cal fuzzy now parsed = Inr (dd, rd)"
  shows "(\<forall>d. dd = Some d \<longrightarrow> d \<noteq> []) \<and> (\<forall>r. rd = Some r \<longrightarrow> r \<noteq> [])"
  using assms
  by (auto simp: resolve_dates_def bind_err_def Let_def
      split: if_splits sum.splits dest: parse_date_string_nonempty)


lemma py_in_sublist: "py_in p s = sublist p s"
  by (induction s) (auto simp: sublist_Cons_right)

lemma sublist_dropWhile_head:
  assumes "p \<noteq> []" and "\<not> P (hd p)" and "sublist p s"
  shows "sublist p (dropWhile P s)"
  using assms(3)
proof (induction s)
  case Nil
  then show ?case by simp
next
  case (Cons c s)
  show ?case
  proof (cases "P c")
    case True
    with assms(1,2) have "\<not> prefix p (c # s)"
      by (cases p) auto
    with Cons.prems have "sublist p s"
      by (simp add: sublist_Cons_right)
    with Cons.IH True show ?thesis by simp
  next
    case False
    with Cons.prems show ?thesis by simp
  qed
qed

lemma sublist_py_strip: "sublist (py_strip s) s"
proof -
  have "sublist (py_lstrip s) s"
    by (simp add: py_lstrip_def)
  moreover have "sublist (py_rstrip t) t" for t
    by (simp add: py_rstrip_def sublist_rev_left)
  ultimately show ?thesis
    unfolding py_strip_def by (meson sublist_order.order_trans)
qed

lemma py_in_strip:
  assumes "p \<noteq> []" and "\<not> py_isspace (hd p)" and "\<not> py_isspace (last p)"
  shows "py_in p (py_strip s) = py_in p s"
  unfolding py_in_sublist
proof
  assume "sublist p (py_strip s)"
  then show "sublist p s"
    using sublist_py_strip sublist_order.order_trans by blast
next
  assume "sublist p s"
  then have 1: "sublist p (dropWhile py_isspace s)"
    using assms(1,2) by (intro sublist_dropWhile_head)
  have "sublist (rev p) (dropWhile py_isspace (rev (dropWhile py_isspace s)))"
    using assms 1 by (simp add: sublist_dropWhile_head hd_rev)
  then show "sublist p (py_strip s)"
    by (simp add: py_lstrip_def py_rstrip_def py_strip_def sublist_rev_right)
qed

lemma dat_contains_tomorrow:
  assumes "py_in ''day after tomorrow'' s"
  shows "py_in ''tomorrow'' s"
proof -
  have "py_in ''tomorrow'' ''day after tomorrow''" by simp
  with assms show ?thesis
    unfolding py_in_sublist using sublist_order.order_trans by blast
qed

lemma phrase_in_stripped:
  "py_in ''tomorrow'' (py_strip s) = py_in ''tomorrow'' s"
  "py_in ''day after tomorrow'' (py_strip s) = py_in ''day after tomorrow'' s"
  by (rule py_in_strip; simp add: py_isspace_def)+

lemma py_in_nonempty: "p \<noteq> [] \<Longrightarrow> py_in p s \<Longrightarrow> s \<noteq> []"
  by (cases s) auto

lemma lower_nonempty: "py_lower s \<noteq> [] \<Longrightarrow> s \<noteq> []"
  by (auto simp: py_lower_def)

lemma month_later_fields:
  "valid_datetime t \<Longrightarrow>
     month (month_later t) = (if month t = 12 then 1 else month t + 1) \<and>
     year (month_later t) = (if month t = 12 then year t + 1 else year t) \<and>
     day (month_later t) =
       min (day t) (days_in_month (year (month_later t)) (month (month_later t)))"
  by (auto simp: valid_datetime_def month_later_def Let_def)

lemma py_strip_lower_Nil: "py_strip (py_lower []) = []"
  by (simp add: py_strip_def py_lstrip_def py_rstrip_def py_lower_def)

lemma match_after_days_here:
  assumes "ds \<noteq> []" and "list_all is_digit ds"
  shows "match_after_days (''after '' @ ds @ '' day'' @ post) = Some ds"
proof -
  have nd: "\<not> is_digit (CHR '' '')" by (simp add: is_digit_def)
  have all: "\<forall>c\<in>set ds. is_digit c" using assms(2) by (simp add: list_all_iff)
  have tw: "takeWhile is_digit (ds @ '' day'' @ post) = ds"
    using all nd by (simp add: takeWhile_append2)
  have dw: "dropWhile is_digit (ds @ '' day'' @ post) = '' day'' @ post"
    using all nd by (simp add: dropWhile_append2)
  show ?thesis
    unfolding match_after_days_def using assms(1) tw dw by (simp add: Let_def)
qed

lemma re_search_skip:
  assumes "\<forall>i<length pre. match_after_days (drop i (pre @ rest)) = None"
  shows "re_search_after_days (pre @ rest) = re_search_after_days rest"
  using assms
proof (induction pre)
  case Nil
  then show ?case by simp
next
  case (Cons c pre)
  from Cons.prems have 0: "match_after_days (c # pre @ rest) = None"
    by (metis append_Cons drop0 length_greater_0_conv list.distinct(1))
  have "\<forall>i<length pre. match_after_days (drop i (pre @ rest)) = None"
  proof (intro allI impI)
    fix i assume "i < length pre"
    then have "Suc i < length (c # pre)" by simp
    with Cons.prems have "match_after_days (drop (Suc i) ((c # pre) @ rest)) = None" by blast
    then show "match_after_days (drop i (pre @ rest)) = None" by simp
  qed
  with Cons.IH have "re_search_after_days (pre @ rest) = re_search_after_days rest" by blast
  with 0 show ?case by simp
qed

lemma re_search_leftmost:
  assumes "low = pre @ ''after '' @ ds @ '' day'' @ post"
    and "ds \<noteq> []" and "list_all is_digit ds"
    and "\<forall>i<length pre. match_after_days (drop i low) = None"
  shows "re_search_after_days low = Some ds"
proof -
  let ?rest = "''after '' @ ds @ '' day'' @ post"
  have "re_search_after_days low = re_search_after_days ?rest"
    using assms(4) unfolding assms(1) by (rule re_search_skip)
  also have "\<dots> = Some ds"
    using match_after_days_here [OF assms(2,3), of post] by simp
  finally show ?thesis .
qed

lemma offset_not_next_month:
  assumes "low = pre @ ''after '' @ ds @ '' day'' @ post" and "ds \<noteq> []"
    and "list_all is_digit ds"
  shows "low \<noteq> ''next month''"
proof
  assume eq: "low = ''next month''"
  from assms(2) obtain c where c: "c \<in> set ds" by (cases ds) auto
  with assms(3) have d: "is_digit c" by (simp add: list_all_iff)
  from c assms(1) have "c \<in> set low" by simp
  with eq have "c \<in> set ''next month''" by simp
  with d show False by (auto simp: is_digit_def)
qed

lemma toordinal_pos: "valid_datetime t \<Longrightarrow> 0 < toordinal t"
  by (simp add: valid_datetime_def toordinal_def ymd2ord_def)

section \<open>End-to-end example with a missing destination\<close>

text \<open>
  Claim C8, as amended. For the extraction \<open>{from: "DEL", to: null, depdate: "tomorrow"}\<close>
  on the anchor 2025-06-01 (at any time of day, with any two library parsers) the answer
  is the incomplete body with the missing-field list \<open>["to"]\<close> and the one matching
  question. The departure date is resolved to 2025-06-02 and no return date is resolved,
  but the body echoes the raw expression \<open>"tomorrow"\<close> (\<open>depdate_raw or None\<close>), not
  the resolved date.
\<close>

theorem incomplete_echoes_raw_departure:
  "parse_query cal fuzzy (t\<lparr>year := 2025, month := 6, day := 1\<rparr>)
     [''from'' \<mapsto> JStr ''DEL'', ''to'' \<mapsto> JNull, ''depdate'' \<mapsto> JStr ''tomorrow'']
   = Incomplete
       \<lparr>message = ''Missing fields: to'', missing_fields = [''to''],
        follow_up = [prompt_to], parsed_from = JStr ''DEL'', parsed_to = JNull,
        parsed_depdate = JStr ''tomorrow''\<rparr>
   \<and> resolve_dates cal fuzzy (t\<lparr>year := 2025, month := 6, day := 1\<rparr>)
       [''from'' \<mapsto> JStr ''DEL'', ''to'' \<mapsto> JNull, ''depdate'' \<mapsto> JStr ''tomorrow'']
     = Inr (Some ''2025-06-02'', None)"
  by (simp add: str_eval date_eval resolver_eval handler_eval)

text \<open>The claim as stated fails: the echoed departure field is not \<open>"2025-06-02"\<close>.\<close>

theorem incomplete_echo_resolved_counterexample:
  "map_option parsed_depdate
     (incomplete_of
        (parse_query cal_unparsed fuzzy_unparsed (at_midnight 2025 6 1)
           [''from'' \<mapsto> JStr ''DEL'', ''to'' \<mapsto> JNull, ''depdate'' \<mapsto> JStr ''tomorrow'']))
   \<noteq> Some (JStr ''2025-06-02'')"
  by (simp add: str_eval date_eval resolver_eval handler_eval example_eval)

section \<open>Exceptions leaving the resolver\<close>

text \<open>
  Claim C5 says that \<open>parse_date_string\<close> never raises. The relative-offset strategy
  adds the days without a guard: for the expression \<open>"after 99999999 days"\<close> the sum lies
  after 9999-12-31 for every anchor, and the call raises \<open>OverflowError\<close> instead of
  returning a date or \<open>None\<close>.
\<close>

theorem relative_offset_overflow_raises:
  "parse_date_string cal fuzzy now (JStr ''after 99999999 days'') base = Inl OverflowError"
  by (simp add: str_eval resolver_eval bind_err_def add_days_def max_ordinal_def)

section \<open>Order of the missing fields and their questions\<close>




section \<open>Sentinel values of the missing-field test\<close>

text \<open>
  Claim C7, as amended. A value counts as missing if and only if it is \<open>None\<close> or its
  trimmed, lower-cased text is one of five sentinels: the empty string, \<open>none\<close>,
  \<open>not provided\<close>, \<open>departure city (not provided)\<close>, \<open>arrival city (not provided)\<close>.
  The claim lists four of them and leaves out \<open>none\<close>. An origin that reads
  \<open>departure city (not provided)\<close> in any letter case is missing like an absent origin,
  and the completeness check gives the same two lists for both.
\<close>

theorem sentinel_equivalence:
  "(is_missing v \<longleftrightarrow>
      v = JNull \<or>
      py_lower (py_strip (py_str v)) \<in>
        {'''', ''none'', ''not provided'', ''departure city (not provided)'',
         ''arrival city (not provided)''})
   \<and> (py_lower s = ''departure city (not provided)'' \<longrightarrow>
        is_missing (JStr s) \<and> is_missing JNull \<and>
        check_missing (JStr s) arrto depdate_raw dd = check_missing JNull arrto depdate_raw dd)"
proof (intro conjI impI)
  show "is_missing v \<longleftrightarrow>
      v = JNull \<or>
      py_lower (py_strip (py_str v)) \<in>
        {'''', ''none'', ''not provided'', ''departure city (not provided)'',
         ''arrival city (not provided)''}"
    by (cases v) (simp_all add: is_missing_def)
next
  assume low: "py_lower s = ''departure city (not provided)''"
  have "py_lower (py_strip s) = py_strip (py_lower s)"
    by (simp add: py_strip_lower)
  also have "\<dots> = ''departure city (not provided)''"
    unfolding low by (simp add: py_strip_def py_lstrip_def py_rstrip_def py_isspace_def)
  finally have m: "is_missing (JStr s)"
    by (simp add: is_missing_def)
  have n: "is_missing JNull"
    by (simp add: is_missing_def)
  show "is_missing (JStr s)" by (rule m)
  show "is_missing JNull" by (rule n)
  show "check_missing (JStr s) arrto depdate_raw dd = check_missing JNull arrto depdate_raw dd"
    using m n by (simp add: check_missing_def)
qed

theorem sentinel_equivalence_witness:
  "py_lower ''Departure City (Not Provided)'' = ''departure city (not provided)''
   \<and> is_missing (JStr ''Departure City (Not Provided)'')
   \<and> check_missing (JStr ''Departure City (Not Provided)'') (JStr ''DXB'')
         (JStr ''tomorrow'') (Some ''2025-06-02'')
       = check_missing JNull (JStr ''DXB'') (JStr ''tomorrow'') (Some ''2025-06-02'')"
proof -
  have low: "py_lower ''Departure City (Not Provided)'' = ''departure city (not provided)''"
    by (simp add: str_eval)
  from sentinel_equivalence
    [of JNull "''Departure City (Not Provided)''" "JStr ''DXB''" "JStr ''tomorrow''"
        "Some ''2025-06-02''"] low
  show ?thesis by simp
qed

text \<open>
  The claim as stated fails for the string \<open>none\<close>: it is missing for the code, it is
  not \<open>None\<close>, and it is none of the four sentinels of the claim.
\<close>

theorem sentinel_none_counterexample:
  "is_missing (JStr ''none'') \<and> JStr ''none'' \<noteq> JNull \<and>
   py_lower (py_strip (py_str (JStr ''none''))) \<notin>
     {'''', ''not provided'', ''departure city (not provided)'',
      ''arrival city (not provided)''}"
  by (simp add: str_eval is_missing_def)

section \<open>Defaults of the complete answer\<close>



section \<open>Segments of the complete answer\<close>

text \<open>
  Claim C10. In every complete answer the departure date is resolved, and the segment
  list is the single segment (origin, destination, resolved departure date) when no
  return date was resolved (in particular when the return expression is absent), and
  that segment followed by the segment (destination, origin, resolved return date) when
  a return date was resolved.
\<close>

theorem round_trip_segments:
  "parse_query cal fuzzy now parsed = Complete p \<longrightarrow>
     (\<exists>d rd. resolve_dates cal fuzzy now parsed = Inr (Some d, rd) \<and> d \<noteq> [] \<and>
        (\<not> truthy (dict_get parsed ''retdate'') \<longrightarrow> rd = None) \<and>
        (rd = None \<longrightarrow>
           segments p =
             [\<lparr>seg_depfrom = dict_get parsed ''from'', seg_arrto = dict_get parsed ''to'',
               seg_depdate = Some d\<rparr>]) \<and>
        (\<forall>r. rd = Some r \<longrightarrow>
           segments p =
             [\<lparr>seg_depfrom = dict_get parsed ''from'', seg_arrto = dict_get parsed ''to'',
               seg_depdate = Some d\<rparr>,
              \<lparr>seg_depfrom = dict_get parsed ''to'', seg_arrto = dict_get parsed ''from'',
               seg_depdate = Some r\<rparr>]))"
proof (intro impI)
  assume cp: "parse_query cal fuzzy now parsed = Complete p"
  then have "\<not> is_error (parse_query cal fuzzy now parsed)" by simp
  then obtain dd rd a c i cb where st:
    "resolve_dates cal fuzzy now parsed = Inr (dd, rd)"
    "py_int (dict_get_default parsed ''adults'' (JInt 1)) = Inr a"
    "py_int (dict_get_default parsed ''children'' (JInt 0)) = Inr c"
    "py_int (dict_get_default parsed ''infants'' (JInt 0)) = Inr i"
    "py_lower_method (dict_get_default parsed ''cabin'' (JStr ''economy'')) = Inr cb"
    by (rule parse_query_steps)
  note ne = resolve_dates_nonempty [OF st(1)]
  from parse_query_result [OF st] cp
  have empty: "fst (missing_of parsed dd) = []"
    and seg: "segments p =
           [\<lparr>seg_depfrom = dict_get parsed ''from'', seg_arrto = dict_get parsed ''to'',
             seg_depdate = dd\<rparr>] @
           (if truthy_str rd
            then [\<lparr>seg_depfrom = dict_get parsed ''to'',
                   seg_arrto = dict_get parsed ''from'', seg_depdate = rd\<rparr>]
            else [])"
    by (auto split: if_splits)
  from empty obtain d where d: "dd = Some d"
    by (cases dd) (auto simp: missing_of_def check_missing_def split: if_splits)
  have absent: "\<not> truthy (dict_get parsed ''retdate'') \<longrightarrow> rd = None"
    using st(1) by (auto simp: resolve_dates_def bind_err_def Let_def split: if_splits sum.splits)
  show "\<exists>d rd. resolve_dates cal fuzzy now parsed = Inr (Some d, rd) \<and> d \<noteq> [] \<and>
        (\<not> truthy (dict_get parsed ''retdate'') \<longrightarrow> rd = None) \<and>
        (rd = None \<longrightarrow>
           segments p =
             [\<lparr>seg_depfrom = dict_get parsed ''from'', seg_arrto = dict_get parsed ''to'',
               seg_depdate = Some d\<rparr>]) \<and>
        (\<forall>r. rd = Some r \<longrightarrow>
           segments p =
             [\<lparr>seg_depfrom = dict_get parsed ''from'', seg_arrto = dict_get parsed ''to'',
               seg_depdate = Some d\<rparr>,
              \<lparr>seg_depfrom = dict_get parsed ''to'', seg_arrto = dict_get parsed ''from'',
               seg_depdate = Some r\<rparr>])"
    using st(1) ne seg absent unfolding d
    by (intro exI [of _ d] exI [of _ rd]) auto
qed

theorem round_trip_segments_witness:
  "map_option segments
     (payload_of
        (parse_query cal_unparsed fuzzy_unparsed (at_midnight 2025 6 1)
           [''from'' \<mapsto> JStr ''DEL'', ''to'' \<mapsto> JStr ''DXB'',
            ''depdate'' \<mapsto> JStr ''day after tomorrow'',
            ''retdate'' \<mapsto> JStr ''after 10 days'']))
   = Some [\<lparr>seg_depfrom = JStr ''DEL'', seg_arrto = JStr ''DXB'',
            seg_depdate = Some ''2025-06-03''\<rparr>,
           \<lparr>seg_depfrom = JStr ''DXB'', seg_arrto = JStr ''DEL'',
            seg_depdate = Some ''2025-06-13''\<rparr>]
   \<and> map_option segments
     (payload_of
        (parse_query cal_unparsed fuzzy_unparsed (at_midnight 2025 6 1)
           [''from'' \<mapsto> JStr ''DEL'', ''to'' \<mapsto> JStr ''DXB'',
            ''depdate'' \<mapsto> JStr ''day after tomorrow'']))
   = Some [\<lparr>seg_depfrom = JStr ''DEL'', seg_arrto = JStr ''DXB'',
            seg_depdate = Some ''2025-06-03''\<rparr>]"
proof -
  let ?p2 = "[''from'' \<mapsto> JStr ''DEL'', ''to'' \<mapsto> JStr ''DXB'',
              ''depdate'' \<mapsto> JStr ''day after tomorrow'',
              ''retdate'' \<mapsto> JStr ''after 10 days'']"
  let ?p1 = "[''from'' \<mapsto> JStr ''DEL'', ''to'' \<mapsto> JStr ''DXB'',
              ''depdate'' \<mapsto> JStr ''day after tomorrow'']"
  let ?q2 = "parse_query cal_unparsed fuzzy_unparsed (at_midnight 2025 6 1) ?p2"
  let ?q1 = "parse_query cal_unparsed fuzzy_unparsed (at_midnight 2025 6 1) ?p1"
  have c2: "\<exists>p. ?q2 = Complete p"
    by (simp add: str_eval date_eval resolver_eval handler_eval example_eval)
  have c1: "\<exists>p. ?q1 = Complete p"
    by (simp add: str_eval date_eval resolver_eval handler_eval example_eval)
  have r2: "resolve_dates cal_unparsed fuzzy_unparsed (at_midnight 2025 6 1) ?p2
              = Inr (Some ''2025-06-03'', Some ''2025-06-13'')"
    by (simp add: str_eval date_eval resolver_eval handler_eval example_eval)
  have r1: "resolve_dates cal_unparsed fuzzy_unparsed (at_midnight 2025 6 1) ?p1
              = Inr (Some ''2025-06-03'', None)"
    by (simp add: str_eval date_eval resolver_eval handler_eval example_eval)
  from c2 obtain p2 where p2: "?q2 = Complete p2" by blast
  from c1 obtain p1 where p1: "?q1 = Complete p1" by blast
  have g2: "dict_get ?p2 ''from'' = JStr ''DEL''" "dict_get ?p2 ''to'' = JStr ''DXB''"
    by (simp_all add: dict_get_def)
  have g1: "dict_get ?p1 ''from'' = JStr ''DEL''" "dict_get ?p1 ''to'' = JStr ''DXB''"
    by (simp_all add: dict_get_def)
  from round_trip_segments [of cal_unparsed fuzzy_unparsed "at_midnight 2025 6 1" ?p2 p2]
    p2 r2
  have s2: "segments p2 =
      [\<lparr>seg_depfrom = JStr ''DEL'', seg_arrto = JStr ''DXB'',
        seg_depdate = Some ''2025-06-03''\<rparr>,
       \<lparr>seg_depfrom = JStr ''DXB'', seg_arrto = JStr ''DEL'',
        seg_depdate = Some ''2025-06-13''\<rparr>]"
    unfolding g2 by auto
  from round_trip_segments [of cal_unparsed fuzzy_unparsed "at_midnight 2025 6 1" ?p1 p1]
    p1 r1
  have s1: "segments p1 =
      [\<lparr>seg_depfrom = JStr ''DEL'', seg_arrto = JStr ''DXB'',
        seg_depdate = Some ''2025-06-03''\<rparr>]"
    unfolding g1 by auto
  show ?thesis
    unfolding p1 p2 using s1 s2 by simp
qed

section \<open>The exact phrases\<close>

text \<open>
  Claim C2, as amended. For every anchor (the base date when one is given, the clock
  otherwise) and every expression whose lower-cased form contains
  \<open>day after tomorrow\<close>, the resolver returns the anchor plus two days, provided that
  date is not after 9999-12-31; for every expression whose lower-cased form contains
  \<open>tomorrow\<close> but not \<open>day after tomorrow\<close> it returns the anchor plus one day, under
  the same proviso. The text around the phrase, the letter case, the relative-offset
  pattern and the two library parsers have no influence.
\<close>

theorem exact_phrases_first:
  "(py_in ''day after tomorrow'' (py_lower s) \<and>
      toordinal (anchor base now) + 2 \<le> max_ordinal \<longrightarrow>
        parse_date_string cal fuzzy now (JStr s) base
          = Inr (Some (strftime (plus_days (anchor base now) 2))))
   \<and> (py_in ''tomorrow'' (py_lower s) \<and> \<not> py_in ''day after tomorrow'' (py_lower s) \<and>
      toordinal (anchor base now) + 1 \<le> max_ordinal \<longrightarrow>
        parse_date_string cal fuzzy now (JStr s) base
          = Inr (Some (strftime (plus_days (anchor base now) 1))))"
proof (intro conjI impI)
  assume h: "py_in ''day after tomorrow'' (py_lower s) \<and>
      toordinal (anchor base now) + 2 \<le> max_ordinal"
  then have ne: "s \<noteq> []"
    using py_in_nonempty lower_nonempty by blast
  from h show "parse_date_string cal fuzzy now (JStr s) base
          = Inr (Some (strftime (plus_days (anchor base now) 2)))"
    by (simp add: parse_date_string_def ne phrase_in_stripped Let_def add_days_def bind_err_def)
next
  assume h: "py_in ''tomorrow'' (py_lower s) \<and> \<not> py_in ''day after tomorrow'' (py_lower s) \<and>
      toordinal (anchor base now) + 1 \<le> max_ordinal"
  then have ne: "s \<noteq> []"
    using py_in_nonempty lower_nonempty by blast
  from h show "parse_date_string cal fuzzy now (JStr s) base
          = Inr (Some (strftime (plus_days (anchor base now) 1)))"
    by (simp add: parse_date_string_def ne phrase_in_stripped Let_def add_days_def bind_err_def)
qed

theorem exact_phrases_first_witness:
  "parse_date_string cal_unparsed fuzzy_unparsed (at_midnight 2025 6 1)
       (JStr ''The Day After Tomorrow, please'') None = Inr (Some ''2025-06-03'')
   \<and> parse_date_string cal_unparsed fuzzy_unparsed (at_midnight 2025 6 1)
       (JStr ''after 5 days or TOMORROW'') (Some (at_midnight 2024 2 28)) = Inr (Some ''2024-02-29'')"
proof -
  have a: "py_in ''day after tomorrow'' (py_lower ''The Day After Tomorrow, please'')"
    by (simp add: str_eval)
  have b: "py_in ''tomorrow'' (py_lower ''after 5 days or TOMORROW'') \<and>
           \<not> py_in ''day after tomorrow'' (py_lower ''after 5 days or TOMORROW'')"
    by (simp add: str_eval)
  have c: "toordinal (anchor None (at_midnight 2025 6 1)) + 2 \<le> max_ordinal"
    by (simp add: date_eval resolver_eval example_eval)
  have d: "toordinal (anchor (Some (at_midnight 2024 2 28)) (at_midnight 2025 6 1)) + 1
             \<le> max_ordinal"
    by (simp add: date_eval resolver_eval example_eval)
  have e: "strftime (plus_days (anchor None (at_midnight 2025 6 1)) 2) = ''2025-06-03''"
    by (simp add: str_eval date_eval resolver_eval example_eval)
  have f: "strftime (plus_days (anchor (Some (at_midnight 2024 2 28)) (at_midnight 2025 6 1)) 1)
             = ''2024-02-29''"
    by (simp add: str_eval date_eval resolver_eval example_eval)
  from exact_phrases_first
    [of "''The Day After Tomorrow, please''" None "at_midnight 2025 6 1"
        cal_unparsed fuzzy_unparsed] a c e
  have 1: "parse_date_string cal_unparsed fuzzy_unparsed (at_midnight 2025 6 1)
       (JStr ''The Day After Tomorrow, please'') None = Inr (Some ''2025-06-03'')"
    by simp
  from exact_phrases_first
    [of "''after 5 days or TOMORROW''" "Some (at_midnight 2024 2 28)" "at_midnight 2025 6 1"
        cal_unparsed fuzzy_unparsed] b d f
  have 2: "parse_date_string cal_unparsed fuzzy_unparsed (at_midnight 2025 6 1)
       (JStr ''after 5 days or TOMORROW'') (Some (at_midnight 2024 2 28)) = Inr (Some ''2024-02-29'')"
    by simp
  from 1 2 show ?thesis by simp
qed

text \<open>
  The claim as stated (every anchor) fails on the last supported day: the addition
  raises \<open>OverflowError\<close>.
\<close>

theorem tomorrow_overflow_counterexample:
  "py_in ''tomorrow'' (py_lower ''tomorrow'') \<and>
   \<not> py_in ''day after tomorrow'' (py_lower ''tomorrow'') \<and>
   parse_date_string cal_unparsed fuzzy_unparsed (at_midnight 2025 6 1)
       (JStr ''tomorrow'') (Some (at_midnight 9999 12 31)) = Inl OverflowError"
  by (simp add: str_eval date_eval resolver_eval example_eval)

section \<open>Next month\<close>

text \<open>
  Claim C4, as amended. For every valid anchor before December 9999 and every
  expression that is \<open>next month\<close> after trimming and lower-casing, the resolver returns
  the anchor moved to the following month (January of the next year after December),
  with the day of the month kept when the new month has it and cut down to the last day
  of the new month otherwise. Anchor 2024-01-31 gives 2024-02-29 and anchor 2023-01-31
  gives 2023-02-28.
\<close>

theorem next_month_clamped:
  "(py_lower (py_strip s) = ''next month'' \<and>
    valid_datetime (anchor base now) \<and>
    (year (anchor base now) < 9999 \<or> month (anchor base now) < 12) \<longrightarrow>
       parse_date_string cal fuzzy now (JStr s) base
         = Inr (Some (strftime (month_later (anchor base now)))))
   \<and> (valid_datetime t \<longrightarrow>
        month (month_later t) = (if month t = 12 then 1 else month t + 1) \<and>
        year (month_later t) = (if month t = 12 then year t + 1 else year t) \<and>
        day (month_later t) =
          min (day t) (days_in_month (year (month_later t)) (month (month_later t))))"
proof -
  have "parse_date_string cal fuzzy now (JStr s) base
         = Inr (Some (strftime (month_later (anchor base now))))"
    if h: "py_lower (py_strip s) = ''next month'' \<and>
      valid_datetime (anchor base now) \<and>
      (year (anchor base now) < 9999 \<or> month (anchor base now) < 12)"
  proof -
    from h have low: "py_strip (py_lower s) = ''next month''"
      by (simp add: py_strip_lower)
    have ne: "s \<noteq> []"
    proof
      assume "s = []"
      with low py_strip_lower_Nil show False by simp
    qed
    have yr: "\<not> 9999 < year (month_later (anchor base now))"
      using h by (auto simp: month_later_def valid_datetime_def Let_def)
    have p1: "\<not> py_in ''day after tomorrow'' ''next month''" by simp
    have p2: "\<not> py_in ''tomorrow'' ''next month''" by simp
    show ?thesis
      using yr ne p1 p2
      by (simp add: parse_date_string_def Let_def low add_one_month_def bind_err_def)
  qed
  then show ?thesis
    using month_later_fields by blast
qed

theorem next_month_clamped_witness:
  "parse_date_string cal_unparsed fuzzy_unparsed (at_midnight 2025 6 1)
       (JStr '' Next Month '') (Some (at_midnight 2024 1 31)) = Inr (Some ''2024-02-29'')
   \<and> parse_date_string cal_unparsed fuzzy_unparsed (at_midnight 2025 6 1)
       (JStr ''next month'') (Some (at_midnight 2023 1 31)) = Inr (Some ''2023-02-28'')
   \<and> day (month_later (at_midnight 2023 1 31)) = 28"
proof -
  let ?now = "at_midnight 2025 6 1"
  let ?a = "anchor (Some (at_midnight 2024 1 31)) ?now"
  let ?b = "anchor (Some (at_midnight 2023 1 31)) ?now"
  have a: "py_lower (py_strip '' Next Month '') = ''next month''"
          "py_lower (py_strip ''next month'') = ''next month''"
    by (simp_all add: str_eval)
  have b: "year ?a < 9999" "year ?b < 9999"
    by (simp_all add: resolver_eval example_eval)
  have c: "strftime (month_later ?a) = ''2024-02-29''"
          "strftime (month_later ?b) = ''2023-02-28''"
    by (simp_all add: str_eval date_eval resolver_eval example_eval)
  have v: "valid_datetime (at_midnight 2023 1 31)" "valid_datetime ?a" "valid_datetime ?b"
    by (simp_all add: valid_datetime_def date_eval resolver_eval example_eval)
  have d: "min (day (at_midnight 2023 1 31))
             (days_in_month (year (month_later (at_midnight 2023 1 31)))
                (month (month_later (at_midnight 2023 1 31)))) = 28"
    by (simp add: date_eval example_eval)
  note thm1 = next_month_clamped
    [of "'' Next Month ''" "Some (at_midnight 2024 1 31)" ?now
        cal_unparsed fuzzy_unparsed "at_midnight 2023 1 31"]
  note thm2 = next_month_clamped
    [of "''next month''" "Some (at_midnight 2023 1 31)" ?now
        cal_unparsed fuzzy_unparsed "at_midnight 2023 1 31"]
  have 1: "parse_date_string cal_unparsed fuzzy_unparsed ?now
       (JStr '' Next Month '') (Some (at_midnight 2024 1 31)) = Inr (Some ''2024-02-29'')"
    using thm1 [THEN conjunct1, THEN mp, OF conjI [OF a(1) conjI [OF v(2) disjI1 [OF b(1)]]]]
    by (simp only: c(1))
  have 2: "parse_date_string cal_unparsed fuzzy_unparsed ?now
       (JStr ''next month'') (Some (at_midnight 2023 1 31)) = Inr (Some ''2023-02-28'')"
    using thm2 [THEN conjunct1, THEN mp, OF conjI [OF a(2) conjI [OF v(3) disjI1 [OF b(2)]]]]
    by (simp only: c(2))
  have 3: "day (month_later (at_midnight 2023 1 31)) = 28"
    using thm2 [THEN conjunct2, THEN mp, OF v(1), THEN conjunct2, THEN conjunct2]
    by (simp only: d)
  from 1 2 3 show ?thesis by (intro conjI)
qed

text \<open>
  The claim as stated (every anchor) fails in December 9999: the following month does
  not exist as a \<open>datetime\<close> and \<open>ValueError\<close> is raised.
\<close>

theorem next_month_overflow_counterexample:
  "py_lower (py_strip ''next month'') = ''next month'' \<and>
   parse_date_string cal_unparsed fuzzy_unparsed (at_midnight 2025 6 1)
       (JStr ''next month'') (Some (at_midnight 9999 12 31)) = Inl ValueError"
  by (simp add: str_eval date_eval resolver_eval example_eval)

section \<open>The relative offset\<close>

text \<open>
  Claim C3, as amended. Let the trimmed, lower-cased expression contain no earlier
  phrase and read \<open>pre\<close>, \<open>after \<close>, a non-empty run \<open>ds\<close> of at most 4300 digits,
  \<open> day\<close>, \<open>post\<close>, with no match of the pattern starting inside \<open>pre\<close> (the
  leftmost match). For every valid anchor and the number \<open>N\<close> written by \<open>ds\<close>, if the
  anchor plus \<open>N\<close> days is not after 9999-12-31, the resolver returns the anchor plus
  \<open>N\<close> days, whatever the text around the pattern and the letter case. An expression
  with no match of the pattern, no earlier phrase and not \<open>next month\<close> (such as
  \<open>after -3 days\<close>) is handed to the two parser fallbacks.
\<close>

theorem relative_offset_pattern:
  "(py_strip (py_lower s) = pre @ ''after '' @ ds @ '' day'' @ post \<and>
    ds \<noteq> [] \<and> list_all is_digit ds \<and> length ds \<le> 4300 \<and>
    (\<forall>i<length pre. match_after_days (drop i (py_strip (py_lower s))) = None) \<and>
    \<not> py_in ''tomorrow'' (py_lower s) \<and>
    valid_datetime (anchor base now) \<and>
    toordinal (anchor base now) + py_int_digits ds \<le> max_ordinal \<longrightarrow>
      parse_date_string cal fuzzy now (JStr s) base
        = Inr (Some (strftime (plus_days (anchor base now) (py_int_digits ds)))))
   \<and> (s \<noteq> [] \<and> re_search_after_days (py_strip (py_lower s)) = None \<and>
       \<not> py_in ''tomorrow'' (py_lower s) \<and> py_strip (py_lower s) \<noteq> ''next month'' \<longrightarrow>
      parse_date_string cal fuzzy now (JStr s) base
        = parser_fallbacks cal fuzzy s (anchor base now))"
proof -
  let ?low = "py_strip (py_lower s)"
  let ?A = "anchor base now"
  have nodat: "\<not> py_in ''day after tomorrow'' ?low" and notom: "\<not> py_in ''tomorrow'' ?low"
    if "\<not> py_in ''tomorrow'' (py_lower s)"
    using that dat_contains_tomorrow [of "py_lower s"] by (auto simp: phrase_in_stripped)
  have first: "parse_date_string cal fuzzy now (JStr s) base
        = Inr (Some (strftime (plus_days ?A (py_int_digits ds))))"
    if h: "?low = pre @ ''after '' @ ds @ '' day'' @ post \<and>
      ds \<noteq> [] \<and> list_all is_digit ds \<and> length ds \<le> 4300 \<and>
      (\<forall>i<length pre. match_after_days (drop i ?low) = None) \<and>
      \<not> py_in ''tomorrow'' (py_lower s) \<and>
      valid_datetime ?A \<and> toordinal ?A + py_int_digits ds \<le> max_ordinal"
  proof -
    from h have h1: "?low = pre @ ''after '' @ ds @ '' day'' @ post"
      and h2: "ds \<noteq> []" and h3: "list_all is_digit ds"
      and h4: "\<forall>i<length pre. match_after_days (drop i ?low) = None"
      by blast+
    have re: "re_search_after_days ?low = Some ds"
      using h1 h2 h3 h4 by (rule re_search_leftmost)
    have nm: "?low \<noteq> ''next month''"
      using h1 h2 h3 by (rule offset_not_next_month)
    have ne: "s \<noteq> []"
    proof
      assume "s = []"
      then have "?low = []" by (simp add: py_strip_lower_Nil)
      with h1 show False by simp
    qed
    have int: "py_int_of_digits ds = Inr (py_int_digits ds)"
      using h by (simp add: py_int_of_digits_def int_max_str_digits_def)
    have pos: "0 < toordinal ?A" using h by (simp add: toordinal_pos)
    have "py_int_digits ds \<le> max_ordinal" using h by simp
    then have small: "\<not> 999999999 < py_int_digits ds" by (simp add: max_ordinal_def)
    have add: "add_days ?A (py_int_digits ds) = Inr (plus_days ?A (py_int_digits ds))"
      using h pos small by (simp add: add_days_def)
    from h have nt: "\<not> py_in ''tomorrow'' (py_lower s)" by blast
    show ?thesis
      using ne nodat [OF nt] notom [OF nt] nm
      by (simp add: parse_date_string_def Let_def re int add bind_err_def)
  qed
  have second: "parse_date_string cal fuzzy now (JStr s) base = parser_fallbacks cal fuzzy s ?A"
    if h: "s \<noteq> [] \<and> re_search_after_days ?low = None \<and>
       \<not> py_in ''tomorrow'' (py_lower s) \<and> ?low \<noteq> ''next month''"
  proof -
    from h have nt: "\<not> py_in ''tomorrow'' (py_lower s)" by blast
    from h have rest: "s \<noteq> []" "re_search_after_days ?low = None" "?low \<noteq> ''next month''"
      by blast+
    show ?thesis
      using rest nodat [OF nt] notom [OF nt] by (simp add: parse_date_string_def Let_def)
  qed
  from first second show ?thesis by blast
qed

theorem relative_offset_pattern_witness:
  "parse_date_string cal_unparsed fuzzy_unparsed (at_midnight 2026 1 1)
       (JStr ''Go AFTER 5 DAYS'') (Some (at_midnight 2025 6 1)) = Inr (Some ''2025-06-06'')
   \<and> parse_date_string cal_unparsed fuzzy_unparsed (at_midnight 2026 1 1)
       (JStr ''after 0 days'') (Some (at_midnight 2025 6 1)) = Inr (Some ''2025-06-01'')
   \<and> parse_date_string cal_unparsed fuzzy_unparsed (at_midnight 2026 1 1)
       (JStr ''after -3 days'') (Some (at_midnight 2025 6 1)) = Inr None"
proof -
  let ?now = "at_midnight 2026 1 1"
  let ?base = "Some (at_midnight 2025 6 1)"
  let ?A = "anchor ?base ?now"
  have v: "valid_datetime ?A"
    by (simp add: valid_datetime_def date_eval resolver_eval example_eval)
  have l1: "py_strip (py_lower ''Go AFTER 5 DAYS'') = ''go '' @ ''after '' @ ''5'' @ '' day'' @ ''s''"
    by (simp add: str_eval)
  have m1: "\<forall>i<length ''go ''. match_after_days (drop i (py_strip (py_lower ''Go AFTER 5 DAYS''))) = None"
    unfolding l1 by (simp add: All_less_Suc match_after_days_def)
  have t1: "\<not> py_in ''tomorrow'' (py_lower ''Go AFTER 5 DAYS'')"
    by (simp add: str_eval)
  have d1: "''5'' \<noteq> [] \<and> list_all is_digit ''5'' \<and> length ''5'' \<le> 4300"
    by (simp add: is_digit_def)
  have o1: "toordinal ?A + py_int_digits ''5'' \<le> max_ordinal"
    by (simp add: str_eval date_eval resolver_eval example_eval)
  have s1: "strftime (plus_days ?A (py_int_digits ''5'')) = ''2025-06-06''"
    by (simp add: str_eval date_eval resolver_eval example_eval)
  have l2: "py_strip (py_lower ''after 0 days'') = [] @ ''after '' @ ''0'' @ '' day'' @ ''s''"
    by (simp add: str_eval)
  have m2: "\<forall>i<length ([]::string). match_after_days (drop i (py_strip (py_lower ''after 0 days''))) = None"
    by simp
  have t2: "\<not> py_in ''tomorrow'' (py_lower ''after 0 days'')"
    by (simp add: str_eval)
  have d2: "''0'' \<noteq> [] \<and> list_all is_digit ''0'' \<and> length ''0'' \<le> 4300"
    by (simp add: is_digit_def)
  have o2: "toordinal ?A + py_int_digits ''0'' \<le> max_ordinal"
    by (simp add: str_eval date_eval resolver_eval example_eval)
  have s2: "strftime (plus_days ?A (py_int_digits ''0'')) = ''2025-06-01''"
    by (simp add: str_eval date_eval resolver_eval example_eval)
  have h3: "''after -3 days'' \<noteq> [] \<and>
      re_search_after_days (py_strip (py_lower ''after -3 days'')) = None \<and>
      \<not> py_in ''tomorrow'' (py_lower ''after -3 days'') \<and>
      py_strip (py_lower ''after -3 days'') \<noteq> ''next month''"
    by (simp add: str_eval match_after_days_def)
  have s3: "parser_fallbacks cal_unparsed fuzzy_unparsed ''after -3 days'' ?A = Inr None"
    by (simp add: parser_fallbacks_def bind_err_def example_eval)
  have 1: "parse_date_string cal_unparsed fuzzy_unparsed ?now
       (JStr ''Go AFTER 5 DAYS'') ?base = Inr (Some ''2025-06-06'')"
    using relative_offset_pattern
      [of "''Go AFTER 5 DAYS''" "''go ''" "''5''" "''s''" ?base ?now cal_unparsed fuzzy_unparsed,
       THEN conjunct1, THEN mp] l1 d1 m1 t1 v o1
    by (simp only: s1) blast
  have 2: "parse_date_string cal_unparsed fuzzy_unparsed ?now
       (JStr ''after 0 days'') ?base = Inr (Some ''2025-06-01'')"
    using relative_offset_pattern
      [of "''after 0 days''" "[]" "''0''" "''s''" ?base ?now cal_unparsed fuzzy_unparsed,
       THEN conjunct1, THEN mp] l2 d2 m2 t2 v o2
    by (simp only: s2) blast
  have 3: "parse_date_string cal_unparsed fuzzy_unparsed ?now
       (JStr ''after -3 days'') ?base = Inr None"
    using relative_offset_pattern
      [of "''after -3 days''" "[]" "[]" "[]" ?base ?now cal_unparsed fuzzy_unparsed,
       THEN conjunct2, THEN mp, OF h3]
    by (simp only: s3)
  from 1 2 3 show ?thesis by (intro conjI)
qed

text \<open>
  The claim as stated fails twice: for a large number the addition raises
  \<open>OverflowError\<close>, and of two occurrences of the pattern the left one decides.
\<close>

theorem relative_offset_counterexample:
  "py_strip (py_lower ''after 99999999 days'')
     = [] @ ''after '' @ ''99999999'' @ '' day'' @ ''s''
   \<and> \<not> py_in ''tomorrow'' (py_lower ''after 99999999 days'')
   \<and> parse_date_string cal_unparsed fuzzy_unparsed (at_midnight 2025 6 1)
        (JStr ''after 99999999 days'') None = Inl OverflowError
   \<and> py_strip (py_lower ''after 1 day after 2 days'')
        = ''after 1 day '' @ ''after '' @ ''2'' @ '' day'' @ ''s''
   \<and> parse_date_string cal_unparsed fuzzy_unparsed (at_midnight 2025 6 1)
        (JStr ''after 1 day after 2 days'') None = Inr (Some ''2025-06-02'')"
  by (simp add: str_eval date_eval resolver_eval example_eval)

end
